theory Spec2Isabelle
  imports Main "HOL-Library.Word"
begin

unbundle bit_operations_syntax

section \<open>KernelSU mount propagation hook\<close>

text \<open>
  A shallow embedding of the kretprobe pair that KernelSU installs on the kernel's
  \<^verbatim>\<open>attach_recursive_mnt\<close>. The repository holds three revisions of
  \<^verbatim>\<open>mount_hook.c\<close>:
  \<^item> \<^verbatim>\<open>src/kernel/mount_hook.c\<close>: the pause flag variant, with a null check of the
    destination (definitions without a suffix);
  \<^item> \<^verbatim>\<open>src/unnamed/part_001\<close>: the pause flag variant that resolves the symbol with
    \<^verbatim>\<open>kallsyms_lookup_name\<close> and has no null check (suffix \<open>_part_001\<close>);
  \<^item> \<^verbatim>\<open>src/unnamed/part_000\<close>: the Zygote and modules device variant
    (suffix \<open>_part_000\<close>).
  The return handler is the same text in all three.
\<close>

subsection \<open>Kernel data\<close>

text \<open>
  A \<^verbatim>\<open>struct mount *\<close> is an address; address 0 is the null pointer. The fields of
  \<^verbatim>\<open>struct mount\<close> that the hook touches are \<^verbatim>\<open>mnt.mnt_flags\<close> (a C
  \<^verbatim>\<open>int\<close>, kept as its 32 bit pattern) and \<^verbatim>\<open>mnt_devname\<close> (a
  \<^verbatim>\<open>const char *\<close>: \<open>None\<close> is the null pointer, \<open>Some n\<close> the bytes before the
  terminating NUL).
\<close>

type_synonym mount_ptr = nat

abbreviation NULL :: mount_ptr where
  "NULL \<equiv> 0"

record mount =
  mnt_flags :: "32 word"
  mnt_devname :: "string option"

text \<open>
  The kernel memory the handlers work on: the live mount objects by address. An address
  outside the domain holds no mount; dereferencing it, or the null pointer, is a fault of
  the kernel, which is a result of the model.
\<close>

record kernel_mem =
  mounts :: "mount_ptr \<rightharpoonup> mount"

datatype fault = NullPointerDereference | BadAddress mount_ptr

definition deref :: "'a kernel_mem_scheme \<Rightarrow> mount_ptr \<Rightarrow> fault + mount" where
  "deref s p =
     (if p = NULL then Inl NullPointerDereference
      else case mounts s p of None \<Rightarrow> Inl (BadAddress p) | Some m \<Rightarrow> Inr m)"

text \<open>\<^verbatim>\<open>struct ksu_attach_mnt_state\<close>, the \<^verbatim>\<open>ri->data\<close> of one probed call.\<close>

record ksu_attach_mnt_state =
  dest_mnt :: mount_ptr
  original_flags :: "32 word"
  spoofed :: bool

text \<open>The two argument registers of the probed call that the handlers read.\<close>

record pt_regs =
  PT_REGS_PARM1 :: mount_ptr
  PT_REGS_PARM2 :: mount_ptr

subsection \<open>The pause flag variant (src/kernel/mount_hook.c)\<close>

text \<open>The state of the module: kernel memory and \<^verbatim>\<open>atomic_t ksu_mount_propagation_paused\<close>.\<close>

record kstate = kernel_mem +
  ksu_mount_propagation_paused :: int

text \<open>\<^verbatim>\<open>ATOMIC_INIT(0)\<close>: the module is loaded with the flag at 0, over whatever mounts exist.\<close>

definition kstate_at_load :: "(mount_ptr \<rightharpoonup> mount) \<Rightarrow> kstate" where
  "kstate_at_load ms = \<lparr>mounts = ms, ksu_mount_propagation_paused = 0\<rparr>"

text \<open>
  The entry handler. \<open>MNT_SHARED\<close> is the kernel's flag mask from
  \<^verbatim>\<open>linux/mount.h\<close>, which is not part of the repository: it is a parameter.
  The handler's own return value is 0 on every path and is left out; the logging under
  \<^verbatim>\<open>CONFIG_KSU_DEBUG\<close> writes nothing and is left out as well.
\<close>

definition ksu_attach_recursive_mnt_entry ::
  "32 word \<Rightarrow> ksu_attach_mnt_state \<Rightarrow> pt_regs \<Rightarrow> kstate
     \<Rightarrow> fault + (ksu_attach_mnt_state \<times> kstate)" where
  "ksu_attach_recursive_mnt_entry MNT_SHARED state regs s =
     (let state = state\<lparr>spoofed := False\<rparr> in
      if ksu_mount_propagation_paused s = 0 then Inr (state, s)
      else
        let dest = PT_REGS_PARM2 regs in
        if dest = NULL then Inr (state, s)
        else
          case deref s dest of
            Inl f \<Rightarrow> Inl f
          | Inr m \<Rightarrow>
              if mnt_flags m AND MNT_SHARED = 0 then Inr (state, s)
              else
                Inr (state\<lparr>dest_mnt := dest, original_flags := mnt_flags m, spoofed := True\<rparr>,
                     s\<lparr>mounts := (mounts s)(dest \<mapsto> m\<lparr>mnt_flags := mnt_flags m AND NOT MNT_SHARED\<rparr>)\<rparr>))"

text \<open>
  The return handler, the same in the three revisions: it reads nothing but the slot and
  the mount the slot points to.
\<close>

definition ksu_attach_recursive_mnt_ret ::
  "ksu_attach_mnt_state \<Rightarrow> 'a kernel_mem_scheme \<Rightarrow> fault + 'a kernel_mem_scheme" where
  "ksu_attach_recursive_mnt_ret state s =
     (if \<not> spoofed state then Inr s
      else
        case deref s (dest_mnt state) of
          Inl f \<Rightarrow> Inl f
        | Inr m \<Rightarrow>
            Inr (s\<lparr>mounts := (mounts s)(dest_mnt state \<mapsto> m\<lparr>mnt_flags := original_flags state\<rparr>)\<rparr>))"

definition ksu_pause_mount_propagation :: "bool \<Rightarrow> kstate \<Rightarrow> kstate" where
  "ksu_pause_mount_propagation pause s =
     (if pause then s\<lparr>ksu_mount_propagation_paused := 1\<rparr>
      else s\<lparr>ksu_mount_propagation_paused := 0\<rparr>)"

text \<open>
  Calls of \<^verbatim>\<open>ksu_pause_mount_propagation\<close> made one after the other, as a controller
  makes them while a probed call is in flight.
\<close>

fun pause_calls :: "bool list \<Rightarrow> kstate \<Rightarrow> kstate" where
  "pause_calls [] s = s"
| "pause_calls (b # bs) s = pause_calls bs (ksu_pause_mount_propagation b s)"

text \<open>
  \<^verbatim>\<open>struct kretprobe\<close>, without its two handler pointers: the symbol name or the address
  of the probed function, the size of the instance pool and the count of missed calls.
\<close>

record kretprobe =
  kp_symbol_name :: "string option"
  kp_addr :: nat
  maxactive :: nat
  nmissed :: nat

definition attach_recursive_mnt_krp :: kretprobe where
  "attach_recursive_mnt_krp =
     \<lparr>kp_symbol_name = Some ''attach_recursive_mnt'', kp_addr = 0, maxactive = 64, nmissed = 0\<rparr>"

text \<open>
  \<^verbatim>\<open>ksu_mount_hook_init\<close>. The kernel's \<^verbatim>\<open>register_kretprobe\<close> is a parameter: all
  the module sees of it is the status it returns. \<open>CONFIG_KPROBES\<close> is the build option of
  the \<^verbatim>\<open>#ifdef\<close>.
\<close>

definition ksu_mount_hook_init :: "bool \<Rightarrow> (kretprobe \<Rightarrow> int) \<Rightarrow> int" where
  "ksu_mount_hook_init CONFIG_KPROBES register_kretprobe =
     (if CONFIG_KPROBES then
        (let ret = register_kretprobe attach_recursive_mnt_krp in
         if ret < 0 then ret else 0)
      else 0)"

subsection \<open>The pause flag variant with symbol lookup (src/unnamed/part_001)\<close>

text \<open>
  The entry handler of this revision reads the flags of the destination without a null
  check. Its register argument is \<^verbatim>\<open>PT_REAL_REGS(regs)\<close>, a macro of a header that is
  not in the repository: the handler is given the real registers.
\<close>

definition ksu_attach_recursive_mnt_entry_part_001 ::
  "32 word \<Rightarrow> ksu_attach_mnt_state \<Rightarrow> pt_regs \<Rightarrow> kstate
     \<Rightarrow> fault + (ksu_attach_mnt_state \<times> kstate)" where
  "ksu_attach_recursive_mnt_entry_part_001 MNT_SHARED state real_regs s =
     (let state = state\<lparr>spoofed := False\<rparr> in
      if ksu_mount_propagation_paused s = 0 then Inr (state, s)
      else
        let dest = PT_REGS_PARM2 real_regs in
        case deref s dest of
          Inl f \<Rightarrow> Inl f
        | Inr m \<Rightarrow>
            if mnt_flags m AND MNT_SHARED = 0 then Inr (state, s)
            else
              Inr (state\<lparr>dest_mnt := dest, original_flags := mnt_flags m, spoofed := True\<rparr>,
                   s\<lparr>mounts := (mounts s)(dest \<mapsto> m\<lparr>mnt_flags := mnt_flags m AND NOT MNT_SHARED\<rparr>)\<rparr>))"

definition attach_recursive_mnt_krp_part_001 :: kretprobe where
  "attach_recursive_mnt_krp_part_001 =
     \<lparr>kp_symbol_name = None, kp_addr = 0, maxactive = 64, nmissed = 0\<rparr>"

text \<open>
  \<^verbatim>\<open>ksu_mount_hook_init\<close> of this revision. \<^verbatim>\<open>kallsyms_lookup_name\<close> and
  \<^verbatim>\<open>register_kretprobe\<close> are the kernel's and \<open>ENOENT\<close> is the constant of
  \<^verbatim>\<open>errno.h\<close>: the three are parameters. An address 0 is a symbol that was not found.
\<close>

definition ksu_mount_hook_init_part_001 ::
  "bool \<Rightarrow> int \<Rightarrow> (string \<Rightarrow> nat) \<Rightarrow> (kretprobe \<Rightarrow> int) \<Rightarrow> int" where
  "ksu_mount_hook_init_part_001 HAVE_KPROBES ENOENT kallsyms_lookup_name register_kretprobe =
     (if HAVE_KPROBES then
        (let attach_recursive_mnt_fp = kallsyms_lookup_name ''attach_recursive_mnt'' in
         if attach_recursive_mnt_fp = 0 then - ENOENT
         else
           (let ret = register_kretprobe
                        (attach_recursive_mnt_krp_part_001\<lparr>kp_addr := attach_recursive_mnt_fp\<rparr>) in
            if ret < 0 then ret else 0))
      else 0)"

subsection \<open>The Zygote and modules device variant (src/unnamed/part_000)\<close>

text \<open>
  The state of the module: kernel memory, the two atomic flags and the buffer
  \<^verbatim>\<open>char ksu_modules_devname[256]\<close>, kept as the C string it holds.
\<close>

record zstate = kernel_mem +
  ksu_zygote_started :: int
  ksu_modules_devname_initialized :: int
  ksu_modules_devname :: string

definition zstate_at_load :: "(mount_ptr \<rightharpoonup> mount) \<Rightarrow> zstate" where
  "zstate_at_load ms =
     \<lparr>mounts = ms, ksu_zygote_started = 0, ksu_modules_devname_initialized = 0,
      ksu_modules_devname = []\<rparr>"

text \<open>
  The C library on strings without an inner NUL: \<^verbatim>\<open>strncmp(a, b, n) == 0\<close>,
  \<^verbatim>\<open>strcmp(a, b) == 0\<close>, and the string a buffer holds after
  \<^verbatim>\<open>strncpy(buf, a, n); buf[n] = 0\<close>.
\<close>

definition strncmp_is_0 :: "string \<Rightarrow> string \<Rightarrow> nat \<Rightarrow> bool" where
  "strncmp_is_0 a b n = (take n a = take n b)"

definition strcmp_is_0 :: "string \<Rightarrow> string \<Rightarrow> bool" where
  "strcmp_is_0 a b = (a = b)"

definition strncpy_terminated :: "string \<Rightarrow> nat \<Rightarrow> string" where
  "strncpy_terminated a n = take n a"

text \<open>
  Step 1 of the entry handler: the first source whose device name starts with
  \<^verbatim>\<open>/dev/block/loop\<close> gives the modules device name. The source is read only when the
  name is still missing (the \<^verbatim>\<open>&&\<close> of C).
\<close>

definition capture_modules_devname :: "mount_ptr \<Rightarrow> zstate \<Rightarrow> fault + zstate" where
  "capture_modules_devname source s =
     (if ksu_modules_devname_initialized s = 0 then
        (case deref s source of
           Inl f \<Rightarrow> Inl f
         | Inr m \<Rightarrow>
             (case mnt_devname m of
                None \<Rightarrow> Inr s
              | Some n \<Rightarrow>
                  if strncmp_is_0 n ''/dev/block/loop'' 15 then
                    Inr (s\<lparr>ksu_modules_devname := strncpy_terminated n (256 - 1),
                           ksu_modules_devname_initialized := 1\<rparr>)
                  else Inr s))
      else Inr s)"

text \<open>
  Step 2, the condition under which the call is left alone: Zygote has started, and no
  name was captured or the source has a device name other than the captured one.
\<close>

definition skip_spoof :: "mount_ptr \<Rightarrow> zstate \<Rightarrow> fault + bool" where
  "skip_spoof source s =
     (if ksu_zygote_started s \<noteq> 0 then
        (if ksu_modules_devname_initialized s = 0 then Inr True
         else
           (case deref s source of
              Inl f \<Rightarrow> Inl f
            | Inr m \<Rightarrow>
                (case mnt_devname m of
                   None \<Rightarrow> Inr False
                 | Some n \<Rightarrow> Inr (\<not> strcmp_is_0 n (ksu_modules_devname s)))))
      else Inr False)"

definition ksu_attach_recursive_mnt_entry_part_000 ::
  "32 word \<Rightarrow> ksu_attach_mnt_state \<Rightarrow> pt_regs \<Rightarrow> zstate
     \<Rightarrow> fault + (ksu_attach_mnt_state \<times> zstate)" where
  "ksu_attach_recursive_mnt_entry_part_000 MNT_SHARED state regs s =
     (let source = PT_REGS_PARM1 regs;
          dest = PT_REGS_PARM2 regs;
          state = state\<lparr>spoofed := False\<rparr> in
      if source = NULL \<or> dest = NULL then Inr (state, s)
      else
        case capture_modules_devname source s of
          Inl f \<Rightarrow> Inl f
        | Inr s \<Rightarrow>
            (case skip_spoof source s of
               Inl f \<Rightarrow> Inl f
             | Inr skip \<Rightarrow>
                 if skip then Inr (state, s)
                 else
                   (case deref s dest of
                      Inl f \<Rightarrow> Inl f
                    | Inr m \<Rightarrow>
                        if mnt_flags m AND MNT_SHARED = 0 then Inr (state, s)
                        else
                          Inr (state\<lparr>dest_mnt := dest, original_flags := mnt_flags m,
                                     spoofed := True\<rparr>,
                               s\<lparr>mounts := (mounts s)(dest \<mapsto>
                                    m\<lparr>mnt_flags := mnt_flags m AND NOT MNT_SHARED\<rparr>)\<rparr>))))"


subsection \<open>Reading the flags of a mount\<close>

text \<open>The flags of the mount at an address, when a mount lives there.\<close>

definition flags_at :: "'a kernel_mem_scheme \<Rightarrow> mount_ptr \<Rightarrow> 32 word option" where
  "flags_at s p = map_option mnt_flags (mounts s p)"

section \<open>Properties\<close>

subsection \<open>Dereferencing and the two handlers\<close>

lemma deref_Inr_iff: "deref s p = Inr m \<longleftrightarrow> p \<noteq> NULL \<and> mounts s p = Some m"
  by (simp add: deref_def split: option.splits)

lemma deref_live: "p \<noteq> NULL \<Longrightarrow> mounts s p = Some m \<Longrightarrow> deref s p = Inr m"
  by (simp add: deref_Inr_iff)

text \<open>The only path of the entry handler that leaves \<open>spoofed\<close> set.\<close>

lemma entry_spoofedD:
  assumes "ksu_attach_recursive_mnt_entry MNT_SHARED state regs s = Inr (state', s')"
    and "spoofed state'"
  shows "\<exists>m. ksu_mount_propagation_paused s \<noteq> 0 \<and> PT_REGS_PARM2 regs \<noteq> NULL
           \<and> mounts s (PT_REGS_PARM2 regs) = Some m \<and> mnt_flags m AND MNT_SHARED \<noteq> 0
           \<and> state' = state\<lparr>dest_mnt := PT_REGS_PARM2 regs, original_flags := mnt_flags m,
                               spoofed := True\<rparr>
           \<and> s' = s\<lparr>mounts := (mounts s)(PT_REGS_PARM2 regs \<mapsto>
                        m\<lparr>mnt_flags := mnt_flags m AND NOT MNT_SHARED\<rparr>)\<rparr>"
  using assms
  by (auto simp: ksu_attach_recursive_mnt_entry_def Let_def deref_Inr_iff
      split: if_splits sum.splits)

lemma ret_spoofed:
  assumes "spoofed state" and "dest_mnt state \<noteq> NULL" and "mounts s (dest_mnt state) = Some m"
  shows "ksu_attach_recursive_mnt_ret state s =
           Inr (s\<lparr>mounts := (mounts s)(dest_mnt state \<mapsto> m\<lparr>mnt_flags := original_flags state\<rparr>)\<rparr>)"
  using assms by (simp add: ksu_attach_recursive_mnt_ret_def deref_live)

lemma ret_not_spoofed: "\<not> spoofed state \<Longrightarrow> ksu_attach_recursive_mnt_ret state s = Inr s"
  by (simp add: ksu_attach_recursive_mnt_ret_def)

subsection \<open>Restoration is a round trip\<close>

text \<open>
  Claim C1. Whenever the entry handler leaves \<open>spoofed\<close> set, the return handler of the
  same call writes the flags captured at entry back onto the destination, so that after
  it the destination has the flags it had before the spoof. The state \<open>body\<close> in which the
  return handler runs is any state at all in which the destination is still a live mount:
  the probed function, other probed calls and the controller may have changed every flag
  and the pause flag in between.
\<close>

theorem restore_round_trip:
  assumes entry: "ksu_attach_recursive_mnt_entry MNT_SHARED state regs s = Inr (state', s')"
    and sp: "spoofed state'"
    and live: "mounts body (dest_mnt state') = Some mb"
  shows "dest_mnt state' = PT_REGS_PARM2 regs
       \<and> flags_at s (dest_mnt state') = Some (original_flags state')
       \<and> (\<exists>after. ksu_attach_recursive_mnt_ret state' body = Inr after
             \<and> mounts after = (mounts body)(dest_mnt state' \<mapsto> mb\<lparr>mnt_flags := original_flags state'\<rparr>)
             \<and> flags_at after (dest_mnt state') = flags_at s (dest_mnt state'))"
proof -
  from entry_spoofedD [OF entry sp] obtain m where
    nn: "PT_REGS_PARM2 regs \<noteq> NULL" and m: "mounts s (PT_REGS_PARM2 regs) = Some m"
    and st: "state' = state\<lparr>dest_mnt := PT_REGS_PARM2 regs, original_flags := mnt_flags m,
                              spoofed := True\<rparr>"
    by blast
  have d: "dest_mnt state' = PT_REGS_PARM2 regs" and o: "original_flags state' = mnt_flags m"
    by (simp_all add: st)
  have pre: "flags_at s (dest_mnt state') = Some (original_flags state')"
    by (simp add: flags_at_def d o m)
  let ?after = "body\<lparr>mounts := (mounts body)(dest_mnt state' \<mapsto>
                    mb\<lparr>mnt_flags := original_flags state'\<rparr>)\<rparr>"
  have r: "ksu_attach_recursive_mnt_ret state' body = Inr ?after"
    using sp nn live d by (intro ret_spoofed) simp_all
  have post: "flags_at ?after (dest_mnt state') = Some (original_flags state')"
    by (simp add: flags_at_def)
  show ?thesis using d pre r post by simp
qed

theorem restore_round_trip_witness:
  "ksu_attach_recursive_mnt_entry 0x1000 \<lparr>dest_mnt = 7, original_flags = 5, spoofed = False\<rparr>
      \<lparr>PT_REGS_PARM1 = 1, PT_REGS_PARM2 = 2\<rparr>
      \<lparr>mounts = [2 \<mapsto> \<lparr>mnt_flags = 0x1010, mnt_devname = None\<rparr>],
       ksu_mount_propagation_paused = 1\<rparr>
    = Inr (\<lparr>dest_mnt = 2, original_flags = 0x1010, spoofed = True\<rparr>,
           \<lparr>mounts = [2 \<mapsto> \<lparr>mnt_flags = 0x10, mnt_devname = None\<rparr>],
            ksu_mount_propagation_paused = 1\<rparr>)
   \<and> ksu_attach_recursive_mnt_ret \<lparr>dest_mnt = 2, original_flags = 0x1010, spoofed = True\<rparr>
        \<lparr>mounts = [2 \<mapsto> \<lparr>mnt_flags = 0x33, mnt_devname = None\<rparr>],
         ksu_mount_propagation_paused = 0\<rparr>
    = Inr \<lparr>mounts = [2 \<mapsto> \<lparr>mnt_flags = 0x1010, mnt_devname = None\<rparr>],
           ksu_mount_propagation_paused = 0\<rparr>"
proof -
  have e: "ksu_attach_recursive_mnt_entry 0x1000 \<lparr>dest_mnt = 7, original_flags = 5, spoofed = False\<rparr>
      \<lparr>PT_REGS_PARM1 = 1, PT_REGS_PARM2 = 2\<rparr>
      \<lparr>mounts = [2 \<mapsto> \<lparr>mnt_flags = 0x1010, mnt_devname = None\<rparr>],
       ksu_mount_propagation_paused = 1\<rparr>
    = Inr (\<lparr>dest_mnt = 2, original_flags = 0x1010, spoofed = True\<rparr>,
           \<lparr>mounts = [2 \<mapsto> \<lparr>mnt_flags = 0x10, mnt_devname = None\<rparr>],
            ksu_mount_propagation_paused = 1\<rparr>)"
    by (simp add: ksu_attach_recursive_mnt_entry_def deref_def)
  from restore_round_trip [OF e, of
      "\<lparr>mounts = [2 \<mapsto> \<lparr>mnt_flags = 0x33, mnt_devname = None\<rparr>],
        ksu_mount_propagation_paused = (0::int)\<rparr>"
      "\<lparr>mnt_flags = 0x33, mnt_devname = None\<rparr>"]
  show ?thesis using e by (auto simp: ret_spoofed)
qed


subsection \<open>An inactive feature changes nothing\<close>

text \<open>
  Claim C4. With the pause flag at 0 the entry handler (of \<^verbatim>\<open>src/kernel/mount_hook.c\<close>
  and of \<^verbatim>\<open>src/unnamed/part_001\<close>) only clears \<open>spoofed\<close> in the slot and leaves
  the whole state as it is, whatever the flags of the destination are; the return handler
  of that call then leaves whatever state it runs in as it is.
\<close>

theorem inactive_leaves_flags:
  assumes "ksu_mount_propagation_paused s = 0"
  shows "ksu_attach_recursive_mnt_entry MNT_SHARED state regs s = Inr (state\<lparr>spoofed := False\<rparr>, s)
       \<and> ksu_attach_recursive_mnt_entry_part_001 MNT_SHARED state regs s = Inr (state\<lparr>spoofed := False\<rparr>, s)
       \<and> ksu_attach_recursive_mnt_ret (state\<lparr>spoofed := False\<rparr>) body = Inr body"
  using assms
  by (simp add: ksu_attach_recursive_mnt_entry_def ksu_attach_recursive_mnt_entry_part_001_def
      ksu_attach_recursive_mnt_ret_def)

theorem inactive_leaves_flags_witness:
  "ksu_mount_propagation_paused (kstate_at_load [2 \<mapsto> \<lparr>mnt_flags = 0x1010, mnt_devname = None\<rparr>]) = 0
   \<and> ksu_attach_recursive_mnt_entry 0x1000 \<lparr>dest_mnt = 7, original_flags = 5, spoofed = True\<rparr>
        \<lparr>PT_REGS_PARM1 = 1, PT_REGS_PARM2 = 2\<rparr>
        (kstate_at_load [2 \<mapsto> \<lparr>mnt_flags = 0x1010, mnt_devname = None\<rparr>])
      = Inr (\<lparr>dest_mnt = 7, original_flags = 5, spoofed = False\<rparr>,
             kstate_at_load [2 \<mapsto> \<lparr>mnt_flags = 0x1010, mnt_devname = None\<rparr>])
   \<and> ksu_attach_recursive_mnt_entry_part_001 0x1000 \<lparr>dest_mnt = 7, original_flags = 5, spoofed = True\<rparr>
        \<lparr>PT_REGS_PARM1 = 1, PT_REGS_PARM2 = 2\<rparr>
        (kstate_at_load [2 \<mapsto> \<lparr>mnt_flags = 0x1010, mnt_devname = None\<rparr>])
      = Inr (\<lparr>dest_mnt = 7, original_flags = 5, spoofed = False\<rparr>,
             kstate_at_load [2 \<mapsto> \<lparr>mnt_flags = 0x1010, mnt_devname = None\<rparr>])
   \<and> ksu_attach_recursive_mnt_ret \<lparr>dest_mnt = 7, original_flags = 5, spoofed = False\<rparr>
        (kstate_at_load [2 \<mapsto> \<lparr>mnt_flags = 0x1010, mnt_devname = None\<rparr>])
      = Inr (kstate_at_load [2 \<mapsto> \<lparr>mnt_flags = 0x1010, mnt_devname = None\<rparr>])"
proof -
  have p: "ksu_mount_propagation_paused
      (kstate_at_load [2 \<mapsto> \<lparr>mnt_flags = 0x1010, mnt_devname = None\<rparr>]) = 0"
    by (simp add: kstate_at_load_def)
  from inactive_leaves_flags [OF p, of "0x1000" "\<lparr>dest_mnt = 7, original_flags = 5, spoofed = True\<rparr>"
      "\<lparr>PT_REGS_PARM1 = 1, PT_REGS_PARM2 = 2\<rparr>"
      "kstate_at_load [2 \<mapsto> \<lparr>mnt_flags = 0x1010, mnt_devname = None\<rparr>]"]
  show ?thesis using p by simp
qed

subsection \<open>The scenario with flags SHARED|0x10\<close>

lemma or_and_not_self: "(M OR x) AND NOT M = x AND NOT (M::32 word)"
  by (simp add: bit.conj_disj_distrib2)

lemma and_not_disjoint: "M AND x = 0 \<Longrightarrow> x AND NOT M = (x::32 word)"
proof (rule bit_eqI)
  fix n
  assume a: "M AND x = 0"
  have "bit (M AND x) n = False" by (simp add: a)
  then show "bit (x AND NOT M) n = bit x n"
    by (auto simp: bit_and_iff bit_not_iff dest: bit_imp_possible_bit)
qed

text \<open>
  Claim C5. With the feature active and a destination whose flags are
  \<open>MNT_SHARED OR 0x10\<close>, the entry handler records these flags in the slot and leaves
  the destination with the flags \<open>0x10\<close>; the return handler, run on the state the entry
  handler left, gives the state before the call back, and run on any other state where the
  destination lives, sets its flags to \<open>MNT_SHARED OR 0x10\<close>. The mask is any non-zero
  mask that does not contain the bit \<open>0x10\<close>.
\<close>

theorem shared_0x10_scenario:
  assumes act: "ksu_mount_propagation_paused s \<noteq> 0"
    and nn: "PT_REGS_PARM2 regs \<noteq> NULL"
    and m: "mounts s (PT_REGS_PARM2 regs) = Some m"
    and fl: "mnt_flags m = MNT_SHARED OR 0x10"
    and sh: "MNT_SHARED \<noteq> 0" and dj: "MNT_SHARED AND 0x10 = 0"
    and live: "mounts body (PT_REGS_PARM2 regs) = Some mb"
  shows "ksu_attach_recursive_mnt_entry MNT_SHARED state regs s =
           Inr (state\<lparr>dest_mnt := PT_REGS_PARM2 regs, original_flags := MNT_SHARED OR 0x10, spoofed := True\<rparr>,
                s\<lparr>mounts := (mounts s)(PT_REGS_PARM2 regs \<mapsto> m\<lparr>mnt_flags := 0x10\<rparr>)\<rparr>)
       \<and> ksu_attach_recursive_mnt_ret
            (state\<lparr>dest_mnt := PT_REGS_PARM2 regs, original_flags := MNT_SHARED OR 0x10, spoofed := True\<rparr>)
            (s\<lparr>mounts := (mounts s)(PT_REGS_PARM2 regs \<mapsto> m\<lparr>mnt_flags := 0x10\<rparr>)\<rparr>) = Inr s
       \<and> ksu_attach_recursive_mnt_ret
            (state\<lparr>dest_mnt := PT_REGS_PARM2 regs, original_flags := MNT_SHARED OR 0x10, spoofed := True\<rparr>)
            body =
           Inr (body\<lparr>mounts := (mounts body)(PT_REGS_PARM2 regs \<mapsto> mb\<lparr>mnt_flags := MNT_SHARED OR 0x10\<rparr>)\<rparr>)"
proof -
  have a: "mnt_flags m AND MNT_SHARED \<noteq> 0"
    using sh by (simp add: fl)
  have b: "mnt_flags m AND NOT MNT_SHARED = 0x10"
    using and_not_disjoint [OF dj] by (simp add: fl or_and_not_self)
  have e: "ksu_attach_recursive_mnt_entry MNT_SHARED state regs s =
           Inr (state\<lparr>dest_mnt := PT_REGS_PARM2 regs, original_flags := MNT_SHARED OR 0x10, spoofed := True\<rparr>,
                s\<lparr>mounts := (mounts s)(PT_REGS_PARM2 regs \<mapsto> m\<lparr>mnt_flags := 0x10\<rparr>)\<rparr>)"
    using act nn a
    by (simp add: ksu_attach_recursive_mnt_entry_def Let_def deref_live [OF nn m] b) (simp add: fl)
  have restored: "m\<lparr>mnt_flags := MNT_SHARED OR 0x10\<rparr> = m"
    using fl by simp
  have same: "(mounts s)(PT_REGS_PARM2 regs \<mapsto> m) = mounts s"
    using m by (simp add: fun_upd_idem)
  have r1: "ksu_attach_recursive_mnt_ret
            (state\<lparr>dest_mnt := PT_REGS_PARM2 regs, original_flags := MNT_SHARED OR 0x10, spoofed := True\<rparr>)
            (s\<lparr>mounts := (mounts s)(PT_REGS_PARM2 regs \<mapsto> m\<lparr>mnt_flags := 0x10\<rparr>)\<rparr>) = Inr s"
    using nn by (simp add: ksu_attach_recursive_mnt_ret_def deref_def restored same)
  have r2: "ksu_attach_recursive_mnt_ret
            (state\<lparr>dest_mnt := PT_REGS_PARM2 regs, original_flags := MNT_SHARED OR 0x10, spoofed := True\<rparr>)
            body =
           Inr (body\<lparr>mounts := (mounts body)(PT_REGS_PARM2 regs \<mapsto> mb\<lparr>mnt_flags := MNT_SHARED OR 0x10\<rparr>)\<rparr>)"
    using nn live by (simp add: ksu_attach_recursive_mnt_ret_def deref_def)
  show ?thesis using e r1 r2 by simp
qed

theorem shared_0x10_scenario_witness:
  "ksu_attach_recursive_mnt_entry 0x1000 \<lparr>dest_mnt = 7, original_flags = 5, spoofed = False\<rparr>
      \<lparr>PT_REGS_PARM1 = 1, PT_REGS_PARM2 = 2\<rparr>
      (ksu_pause_mount_propagation True
         (kstate_at_load [2 \<mapsto> \<lparr>mnt_flags = 0x1010, mnt_devname = None\<rparr>]))
    = Inr (\<lparr>dest_mnt = 2, original_flags = 0x1010, spoofed = True\<rparr>,
           \<lparr>mounts = [2 \<mapsto> \<lparr>mnt_flags = 0x10, mnt_devname = None\<rparr>],
            ksu_mount_propagation_paused = 1\<rparr>)
   \<and> ksu_attach_recursive_mnt_ret \<lparr>dest_mnt = 2, original_flags = 0x1010, spoofed = True\<rparr>
        \<lparr>mounts = [2 \<mapsto> \<lparr>mnt_flags = 0x10, mnt_devname = None\<rparr>],
         ksu_mount_propagation_paused = 1\<rparr>
    = Inr \<lparr>mounts = [2 \<mapsto> \<lparr>mnt_flags = 0x1010, mnt_devname = None\<rparr>],
           ksu_mount_propagation_paused = 1\<rparr>"
proof -
  let ?m = "\<lparr>mnt_flags = 0x1010, mnt_devname = None\<rparr>"
  let ?s = "ksu_pause_mount_propagation True (kstate_at_load [2 \<mapsto> ?m])"
  let ?regs = "\<lparr>PT_REGS_PARM1 = 1, PT_REGS_PARM2 = 2\<rparr>"
  have s: "?s = \<lparr>mounts = [2 \<mapsto> ?m], ksu_mount_propagation_paused = 1\<rparr>"
    by (simp add: ksu_pause_mount_propagation_def kstate_at_load_def)
  have h1: "ksu_mount_propagation_paused ?s \<noteq> 0" by (simp add: s)
  have h2: "PT_REGS_PARM2 ?regs \<noteq> NULL" by simp
  have h3: "mounts ?s (PT_REGS_PARM2 ?regs) = Some ?m" by (simp add: s)
  have h4: "mnt_flags ?m = 0x1000 OR 0x10" by simp
  have h5: "(0x1000 :: 32 word) \<noteq> 0" by simp
  have h6: "(0x1000 :: 32 word) AND 0x10 = 0" by simp
  from shared_0x10_scenario [OF h1 h2 h3 h4 h5 h6 h3,
      of "\<lparr>dest_mnt = 7, original_flags = 5, spoofed = False\<rparr>"]
  show ?thesis by (simp add: s)
qed

subsection \<open>A private destination is left alone\<close>

text \<open>
  Claim C6. With the feature active and a live destination whose shared bit is clear, the
  entry handler only clears \<open>spoofed\<close> and leaves the state as it is, and the return
  handler of that call changes nothing: \<open>spoofed\<close> is false through the whole call. The
  handler of this revision never reads the source, so nothing is asked of it.
\<close>

theorem private_dest_untouched:
  assumes "ksu_mount_propagation_paused s \<noteq> 0"
    and "PT_REGS_PARM2 regs \<noteq> NULL"
    and "mounts s (PT_REGS_PARM2 regs) = Some m"
    and "mnt_flags m AND MNT_SHARED = 0"
  shows "ksu_attach_recursive_mnt_entry MNT_SHARED state regs s = Inr (state\<lparr>spoofed := False\<rparr>, s)
       \<and> ksu_attach_recursive_mnt_ret (state\<lparr>spoofed := False\<rparr>) body = Inr body"
  using assms
  by (simp add: ksu_attach_recursive_mnt_entry_def deref_def ksu_attach_recursive_mnt_ret_def)

theorem private_dest_untouched_witness:
  "ksu_attach_recursive_mnt_entry 0x1000 \<lparr>dest_mnt = 7, original_flags = 5, spoofed = True\<rparr>
      \<lparr>PT_REGS_PARM1 = 1, PT_REGS_PARM2 = 2\<rparr>
      \<lparr>mounts = [2 \<mapsto> \<lparr>mnt_flags = 0x10, mnt_devname = None\<rparr>], ksu_mount_propagation_paused = 1\<rparr>
    = Inr (\<lparr>dest_mnt = 7, original_flags = 5, spoofed = False\<rparr>,
           \<lparr>mounts = [2 \<mapsto> \<lparr>mnt_flags = 0x10, mnt_devname = None\<rparr>], ksu_mount_propagation_paused = 1\<rparr>)
   \<and> ksu_attach_recursive_mnt_ret \<lparr>dest_mnt = 7, original_flags = 5, spoofed = False\<rparr>
        \<lparr>mounts = [2 \<mapsto> \<lparr>mnt_flags = 0x30, mnt_devname = None\<rparr>], ksu_mount_propagation_paused = 0\<rparr>
    = Inr \<lparr>mounts = [2 \<mapsto> \<lparr>mnt_flags = 0x30, mnt_devname = None\<rparr>], ksu_mount_propagation_paused = 0\<rparr>"
proof -
  let ?m = "\<lparr>mnt_flags = 0x10, mnt_devname = None\<rparr>"
  let ?s = "\<lparr>mounts = [2 \<mapsto> ?m], ksu_mount_propagation_paused = 1\<rparr>"
  let ?regs = "\<lparr>PT_REGS_PARM1 = 1, PT_REGS_PARM2 = 2\<rparr>"
  have h1: "ksu_mount_propagation_paused ?s \<noteq> 0" by simp
  have h2: "PT_REGS_PARM2 ?regs \<noteq> NULL" by simp
  have h3: "mounts ?s (PT_REGS_PARM2 ?regs) = Some ?m" by simp
  have h4: "mnt_flags ?m AND 0x1000 = 0" by simp
  from private_dest_untouched [OF h1 h2 h3 h4,
      of "\<lparr>dest_mnt = 7, original_flags = 5, spoofed = True\<rparr>"
         "\<lparr>mounts = [2 \<mapsto> \<lparr>mnt_flags = 0x30, mnt_devname = None\<rparr>], ksu_mount_propagation_paused = (0::int)\<rparr>"]
  show ?thesis by simp
qed

subsection \<open>A call in flight does not see the pause flag\<close>

lemma ret_pause_commute:
  "ksu_attach_recursive_mnt_ret state (ksu_pause_mount_propagation b s) =
     (case ksu_attach_recursive_mnt_ret state s of
        Inl f \<Rightarrow> Inl f
      | Inr s' \<Rightarrow> Inr (ksu_pause_mount_propagation b s'))"
  by (simp add: ksu_attach_recursive_mnt_ret_def ksu_pause_mount_propagation_def deref_def
      split: option.splits)

lemma mounts_pause: "mounts (ksu_pause_mount_propagation b s) = mounts s"
  by (simp add: ksu_pause_mount_propagation_def)

lemma mounts_pause_calls: "mounts (pause_calls bs s) = mounts s"
  by (induction bs arbitrary: s) (simp_all add: mounts_pause)

lemma ret_pause_calls:
  "ksu_attach_recursive_mnt_ret state (pause_calls bs s) =
     (case ksu_attach_recursive_mnt_ret state s of
        Inl f \<Rightarrow> Inl f
      | Inr s' \<Rightarrow> Inr (pause_calls bs s'))"
proof (induction bs arbitrary: s)
  case Nil
  show ?case by (simp split: sum.splits)
next
  case (Cons b bs)
  show ?case
    by (simp add: Cons.IH ret_pause_commute split: sum.splits)
qed

lemma ret_pause_flag_value:
  "ksu_attach_recursive_mnt_ret state (s\<lparr>ksu_mount_propagation_paused := v\<rparr>) =
     (case ksu_attach_recursive_mnt_ret state s of
        Inl f \<Rightarrow> Inl f
      | Inr s' \<Rightarrow> Inr (s'\<lparr>ksu_mount_propagation_paused := v\<rparr>))"
  by (simp add: ksu_attach_recursive_mnt_ret_def deref_def split: option.splits)

text \<open>
  Claim C7. Between the entry handler and the return handler of a call the controller may
  call \<^verbatim>\<open>ksu_pause_mount_propagation\<close> any number of times. These calls do not touch
  the mounts, and they cannot reach the slot; the return handler then does to the mounts
  exactly what it would have done without them (it restores, or not, by the slot alone),
  and the pause flag comes out as the calls left it. The same holds for any value at all
  of the pause flag at return time.
\<close>

theorem in_flight_frame_ignores_pause_flag:
  "ksu_attach_recursive_mnt_ret state (pause_calls bs s) =
     (case ksu_attach_recursive_mnt_ret state s of
        Inl f \<Rightarrow> Inl f
      | Inr s' \<Rightarrow> Inr (pause_calls bs s'))
   \<and> mounts (pause_calls bs s) = mounts s
   \<and> ksu_attach_recursive_mnt_ret state (s\<lparr>ksu_mount_propagation_paused := v\<rparr>) =
     (case ksu_attach_recursive_mnt_ret state s of
        Inl f \<Rightarrow> Inl f
      | Inr s' \<Rightarrow> Inr (s'\<lparr>ksu_mount_propagation_paused := v\<rparr>))"
  by (simp add: ret_pause_calls mounts_pause_calls ret_pause_flag_value)

theorem in_flight_frame_ignores_pause_flag_witness:
  "ksu_attach_recursive_mnt_ret \<lparr>dest_mnt = 2, original_flags = 0x1010, spoofed = True\<rparr>
     (pause_calls [False, True, False]
        \<lparr>mounts = [2 \<mapsto> \<lparr>mnt_flags = 0x10, mnt_devname = None\<rparr>], ksu_mount_propagation_paused = 1\<rparr>)
   = Inr \<lparr>mounts = [2 \<mapsto> \<lparr>mnt_flags = 0x1010, mnt_devname = None\<rparr>], ksu_mount_propagation_paused = 0\<rparr>"
  using in_flight_frame_ignores_pause_flag [of "\<lparr>dest_mnt = 2, original_flags = 0x1010, spoofed = True\<rparr>"
     "[False, True, False]"
     "\<lparr>mounts = [2 \<mapsto> \<lparr>mnt_flags = 0x10, mnt_devname = None\<rparr>], ksu_mount_propagation_paused = 1\<rparr>"]
  by (simp add: ksu_attach_recursive_mnt_ret_def deref_def ksu_pause_mount_propagation_def)

subsection \<open>Null references\<close>

text \<open>
  The revision \<^verbatim>\<open>src/unnamed/part_001\<close> has no null check: with the feature active, a
  null destination is dereferenced.
\<close>

lemma part_001_null_dest_faults:
  "ksu_mount_propagation_paused s \<noteq> 0 \<Longrightarrow> PT_REGS_PARM2 regs = NULL \<Longrightarrow>
     ksu_attach_recursive_mnt_entry_part_001 MNT_SHARED state regs s = Inl NullPointerDereference"
  by (simp add: ksu_attach_recursive_mnt_entry_part_001_def deref_def)

text \<open>
  Claim C2, as amended. The entry handler checks the references it goes on to
  dereference: the destination in \<^verbatim>\<open>src/kernel/mount_hook.c\<close>, the source and the
  destination in \<^verbatim>\<open>src/unnamed/part_000\<close>. When a checked reference is null the
  handler only clears \<open>spoofed\<close> in the slot and leaves the state as it is; no mount is
  read, since the result is the same whatever the memory holds.
\<close>

theorem null_reference_bypass:
  "(PT_REGS_PARM2 regs = NULL \<longrightarrow>
      ksu_attach_recursive_mnt_entry MNT_SHARED state regs s = Inr (state\<lparr>spoofed := False\<rparr>, s))
   \<and> (PT_REGS_PARM1 regs = NULL \<or> PT_REGS_PARM2 regs = NULL \<longrightarrow>
      ksu_attach_recursive_mnt_entry_part_000 MNT_SHARED state regs z = Inr (state\<lparr>spoofed := False\<rparr>, z))"
  by (simp add: ksu_attach_recursive_mnt_entry_def ksu_attach_recursive_mnt_entry_part_000_def Let_def)

theorem null_reference_bypass_witness:
  "PT_REGS_PARM2 \<lparr>PT_REGS_PARM1 = 1, PT_REGS_PARM2 = NULL\<rparr> = NULL
   \<and> ksu_attach_recursive_mnt_entry 0x1000 \<lparr>dest_mnt = 7, original_flags = 5, spoofed = True\<rparr>
        \<lparr>PT_REGS_PARM1 = 1, PT_REGS_PARM2 = NULL\<rparr>
        \<lparr>mounts = Map.empty, ksu_mount_propagation_paused = 1\<rparr>
      = Inr (\<lparr>dest_mnt = 7, original_flags = 5, spoofed = False\<rparr>,
             \<lparr>mounts = Map.empty, ksu_mount_propagation_paused = 1\<rparr>)
   \<and> ksu_attach_recursive_mnt_entry_part_000 0x1000
        \<lparr>dest_mnt = 7, original_flags = 5, spoofed = True\<rparr>
        \<lparr>PT_REGS_PARM1 = 1, PT_REGS_PARM2 = NULL\<rparr>
        (zstate_at_load Map.empty)
      = Inr (\<lparr>dest_mnt = 7, original_flags = 5, spoofed = False\<rparr>, zstate_at_load Map.empty)
   \<and> PT_REGS_PARM1 \<lparr>PT_REGS_PARM1 = NULL, PT_REGS_PARM2 = 2\<rparr> = NULL
   \<and> ksu_attach_recursive_mnt_entry_part_000 0x1000
        \<lparr>dest_mnt = 7, original_flags = 5, spoofed = True\<rparr>
        \<lparr>PT_REGS_PARM1 = NULL, PT_REGS_PARM2 = 2\<rparr>
        (zstate_at_load [2 \<mapsto> \<lparr>mnt_flags = 0x1010, mnt_devname = None\<rparr>])
      = Inr (\<lparr>dest_mnt = 7, original_flags = 5, spoofed = False\<rparr>,
             zstate_at_load [2 \<mapsto> \<lparr>mnt_flags = 0x1010, mnt_devname = None\<rparr>])"
  using null_reference_bypass [of "\<lparr>PT_REGS_PARM1 = 1, PT_REGS_PARM2 = NULL\<rparr>" "0x1000"
      "\<lparr>dest_mnt = 7, original_flags = 5, spoofed = True\<rparr>"
      "\<lparr>mounts = Map.empty, ksu_mount_propagation_paused = 1\<rparr>" "zstate_at_load Map.empty"]
    null_reference_bypass [of "\<lparr>PT_REGS_PARM1 = NULL, PT_REGS_PARM2 = 2\<rparr>" "0x1000"
      "\<lparr>dest_mnt = 7, original_flags = 5, spoofed = True\<rparr>"
      "\<lparr>mounts = Map.empty, ksu_mount_propagation_paused = 1\<rparr>"
      "zstate_at_load [2 \<mapsto> \<lparr>mnt_flags = 0x1010, mnt_devname = None\<rparr>]"]
  by simp

text \<open>
  The claim as first stated fails in \<^verbatim>\<open>src/kernel/mount_hook.c\<close>, which never looks at
  the source outside its debug logging: with a null source, an active feature and a shared
  destination the spoof is applied.
\<close>

theorem null_source_counterexample:
  "PT_REGS_PARM1 \<lparr>PT_REGS_PARM1 = NULL, PT_REGS_PARM2 = 2\<rparr> = NULL
   \<and> ksu_attach_recursive_mnt_entry 0x1000 \<lparr>dest_mnt = 7, original_flags = 5, spoofed = False\<rparr>
        \<lparr>PT_REGS_PARM1 = NULL, PT_REGS_PARM2 = 2\<rparr>
        \<lparr>mounts = [2 \<mapsto> \<lparr>mnt_flags = 0x1010, mnt_devname = None\<rparr>], ksu_mount_propagation_paused = 1\<rparr>
      = Inr (\<lparr>dest_mnt = 2, original_flags = 0x1010, spoofed = True\<rparr>,
             \<lparr>mounts = [2 \<mapsto> \<lparr>mnt_flags = 0x10, mnt_devname = None\<rparr>], ksu_mount_propagation_paused = 1\<rparr>)"
  by (simp add: ksu_attach_recursive_mnt_entry_def deref_def)

subsection \<open>Initialisation\<close>

text \<open>
  Claim C8. \<^verbatim>\<open>ksu_mount_hook_init\<close> returns a status other than 0 in two cases only.
  In \<^verbatim>\<open>src/unnamed/part_001\<close>: when the symbol is not found, and then the status is
  \<open>- ENOENT\<close>; and when the registration of the probe returns a negative status, which is
  then returned as it is. In \<^verbatim>\<open>src/kernel/mount_hook.c\<close> the kernel resolves the symbol
  during the registration, whose negative status is returned as it is. In every other case,
  also when the build has no kprobes, the status is 0. The function is total: it returns a
  status in every case.
\<close>

theorem init_failures:
  assumes "0 < ENOENT"
  shows "(ksu_mount_hook_init_part_001 HAVE_KPROBES ENOENT kallsyms_lookup_name register_kretprobe \<noteq> 0)
          = (HAVE_KPROBES \<and>
             (kallsyms_lookup_name ''attach_recursive_mnt'' = 0 \<or>
              register_kretprobe (attach_recursive_mnt_krp_part_001
                \<lparr>kp_addr := kallsyms_lookup_name ''attach_recursive_mnt''\<rparr>) < 0))
       \<and> (HAVE_KPROBES \<and> kallsyms_lookup_name ''attach_recursive_mnt'' = 0 \<longrightarrow>
            ksu_mount_hook_init_part_001 HAVE_KPROBES ENOENT kallsyms_lookup_name register_kretprobe
              = - ENOENT)
       \<and> (HAVE_KPROBES \<and> kallsyms_lookup_name ''attach_recursive_mnt'' \<noteq> 0
            \<and> register_kretprobe (attach_recursive_mnt_krp_part_001
                \<lparr>kp_addr := kallsyms_lookup_name ''attach_recursive_mnt''\<rparr>) < 0 \<longrightarrow>
            ksu_mount_hook_init_part_001 HAVE_KPROBES ENOENT kallsyms_lookup_name register_kretprobe
              = register_kretprobe (attach_recursive_mnt_krp_part_001
                \<lparr>kp_addr := kallsyms_lookup_name ''attach_recursive_mnt''\<rparr>))
       \<and> (ksu_mount_hook_init CONFIG_KPROBES register_kretprobe \<noteq> 0)
          = (CONFIG_KPROBES \<and> register_kretprobe attach_recursive_mnt_krp < 0)
       \<and> (CONFIG_KPROBES \<and> register_kretprobe attach_recursive_mnt_krp < 0 \<longrightarrow>
            ksu_mount_hook_init CONFIG_KPROBES register_kretprobe
              = register_kretprobe attach_recursive_mnt_krp)"
  using assms
  by (auto simp: ksu_mount_hook_init_part_001_def ksu_mount_hook_init_def Let_def)

theorem init_failures_witness:
  "ksu_mount_hook_init_part_001 True 2 (\<lambda>name. 0) (\<lambda>krp. 0) = - 2
   \<and> ksu_mount_hook_init_part_001 True 2 (\<lambda>name. 4096) (\<lambda>krp. - 22) = - 22
   \<and> ksu_mount_hook_init_part_001 True 2 (\<lambda>name. 4096) (\<lambda>krp. 0) = 0
   \<and> ksu_mount_hook_init True (\<lambda>krp. - 22) = - 22
   \<and> ksu_mount_hook_init True (\<lambda>krp. 0) = 0"
proof -
  have e: "(0::int) < 2" by simp
  from init_failures [OF e, of True "\<lambda>name. 0" "\<lambda>krp. 0" True]
    init_failures [OF e, of True "\<lambda>name. 4096" "\<lambda>krp. - 22" True]
  show ?thesis
    by (simp add: ksu_mount_hook_init_part_001_def ksu_mount_hook_init_def)
qed

subsection \<open>What a spoof records and clears\<close>

lemma entry_part_000_spoofedD:
  assumes "ksu_attach_recursive_mnt_entry_part_000 MNT_SHARED state regs s = Inr (state', s')"
    and "spoofed state'"
  shows "\<exists>z m. PT_REGS_PARM1 regs \<noteq> NULL \<and> PT_REGS_PARM2 regs \<noteq> NULL
           \<and> capture_modules_devname (PT_REGS_PARM1 regs) s = Inr z
           \<and> skip_spoof (PT_REGS_PARM1 regs) z = Inr False
           \<and> mounts z (PT_REGS_PARM2 regs) = Some m \<and> mnt_flags m AND MNT_SHARED \<noteq> 0
           \<and> state' = state\<lparr>dest_mnt := PT_REGS_PARM2 regs, original_flags := mnt_flags m, spoofed := True\<rparr>
           \<and> s' = z\<lparr>mounts := (mounts z)(PT_REGS_PARM2 regs \<mapsto> m\<lparr>mnt_flags := mnt_flags m AND NOT MNT_SHARED\<rparr>)\<rparr>"
  using assms
  by (auto simp: ksu_attach_recursive_mnt_entry_part_000_def Let_def deref_Inr_iff
      split: if_splits sum.splits)

lemma capture_mounts: "capture_modules_devname p s = Inr z \<Longrightarrow> mounts z = mounts s"
  by (auto simp: capture_modules_devname_def split: if_splits sum.splits option.splits)


text \<open>
  Claim C10. Whenever the entry handler (of \<^verbatim>\<open>src/kernel/mount_hook.c\<close> and of
  \<^verbatim>\<open>src/unnamed/part_000\<close>) leaves \<open>spoofed\<close> set, the \<open>original_flags\<close> of the slot
  have the shared bit set and are the flags the destination had at entry, and the flags of
  the destination after the handler are \<open>original_flags\<close> without the bits of
  \<open>MNT_SHARED\<close>, every other bit as it was.
\<close>

theorem spoof_clears_only_shared_bit:
  "(ksu_attach_recursive_mnt_entry MNT_SHARED state regs s = Inr (state', s') \<and> spoofed state' \<longrightarrow>
      original_flags state' AND MNT_SHARED \<noteq> 0
      \<and> flags_at s (dest_mnt state') = Some (original_flags state')
      \<and> flags_at s' (dest_mnt state') = Some (original_flags state' AND NOT MNT_SHARED))
   \<and> (ksu_attach_recursive_mnt_entry_part_000 MNT_SHARED zstate regs z = Inr (zstate', z') \<and> spoofed zstate' \<longrightarrow>
      original_flags zstate' AND MNT_SHARED \<noteq> 0
      \<and> flags_at z (dest_mnt zstate') = Some (original_flags zstate')
      \<and> flags_at z' (dest_mnt zstate') = Some (original_flags zstate' AND NOT MNT_SHARED))"
proof (intro conjI impI)
  assume a: "ksu_attach_recursive_mnt_entry MNT_SHARED state regs s = Inr (state', s') \<and> spoofed state'"
  from entry_spoofedD [of MNT_SHARED state regs s state' s'] a
  obtain m where "mounts s (PT_REGS_PARM2 regs) = Some m" "mnt_flags m AND MNT_SHARED \<noteq> 0"
    "state' = state\<lparr>dest_mnt := PT_REGS_PARM2 regs, original_flags := mnt_flags m, spoofed := True\<rparr>"
    "s' = s\<lparr>mounts := (mounts s)(PT_REGS_PARM2 regs \<mapsto> m\<lparr>mnt_flags := mnt_flags m AND NOT MNT_SHARED\<rparr>)\<rparr>"
    by blast
  then show "original_flags state' AND MNT_SHARED \<noteq> 0"
    "flags_at s (dest_mnt state') = Some (original_flags state')"
    "flags_at s' (dest_mnt state') = Some (original_flags state' AND NOT MNT_SHARED)"
    by (simp_all add: flags_at_def)
next
  assume a: "ksu_attach_recursive_mnt_entry_part_000 MNT_SHARED zstate regs z = Inr (zstate', z') \<and> spoofed zstate'"
  from entry_part_000_spoofedD [of MNT_SHARED zstate regs z zstate' z'] a
  obtain y m where c: "capture_modules_devname (PT_REGS_PARM1 regs) z = Inr y"
    and "mounts y (PT_REGS_PARM2 regs) = Some m" "mnt_flags m AND MNT_SHARED \<noteq> 0"
    "zstate' = zstate\<lparr>dest_mnt := PT_REGS_PARM2 regs, original_flags := mnt_flags m, spoofed := True\<rparr>"
    "z' = y\<lparr>mounts := (mounts y)(PT_REGS_PARM2 regs \<mapsto> m\<lparr>mnt_flags := mnt_flags m AND NOT MNT_SHARED\<rparr>)\<rparr>"
    by blast
  then show "original_flags zstate' AND MNT_SHARED \<noteq> 0"
    "flags_at z (dest_mnt zstate') = Some (original_flags zstate')"
    "flags_at z' (dest_mnt zstate') = Some (original_flags zstate' AND NOT MNT_SHARED)"
    using capture_mounts [OF c] by (simp_all add: flags_at_def)
qed

theorem spoof_clears_only_shared_bit_witness:
  "ksu_attach_recursive_mnt_entry 0x1000 \<lparr>dest_mnt = 7, original_flags = 5, spoofed = False\<rparr>
      \<lparr>PT_REGS_PARM1 = 1, PT_REGS_PARM2 = 2\<rparr>
      \<lparr>mounts = [2 \<mapsto> \<lparr>mnt_flags = 0x1013, mnt_devname = None\<rparr>], ksu_mount_propagation_paused = 1\<rparr>
    = Inr (\<lparr>dest_mnt = 2, original_flags = 0x1013, spoofed = True\<rparr>,
           \<lparr>mounts = [2 \<mapsto> \<lparr>mnt_flags = 0x13, mnt_devname = None\<rparr>], ksu_mount_propagation_paused = 1\<rparr>)
   \<and> flags_at \<lparr>mounts = [2 \<mapsto> \<lparr>mnt_flags = 0x13, mnt_devname = None\<rparr>], ksu_mount_propagation_paused = (1::int)\<rparr> 2
       = Some (0x1013 AND NOT 0x1000)
   \<and> ksu_attach_recursive_mnt_entry_part_000 0x1000 \<lparr>dest_mnt = 7, original_flags = 5, spoofed = False\<rparr>
      \<lparr>PT_REGS_PARM1 = 1, PT_REGS_PARM2 = 2\<rparr>
      (zstate_at_load [1 \<mapsto> \<lparr>mnt_flags = 0, mnt_devname = Some ''tmpfs''\<rparr>,
                       2 \<mapsto> \<lparr>mnt_flags = 0x1013, mnt_devname = None\<rparr>])
    = Inr (\<lparr>dest_mnt = 2, original_flags = 0x1013, spoofed = True\<rparr>,
           zstate_at_load [1 \<mapsto> \<lparr>mnt_flags = 0, mnt_devname = Some ''tmpfs''\<rparr>,
                       2 \<mapsto> \<lparr>mnt_flags = 0x13, mnt_devname = None\<rparr>])
   \<and> flags_at (zstate_at_load [1 \<mapsto> \<lparr>mnt_flags = 0, mnt_devname = Some ''tmpfs''\<rparr>,
                       2 \<mapsto> \<lparr>mnt_flags = 0x13, mnt_devname = None\<rparr>]) 2
       = Some (0x1013 AND NOT 0x1000)"
proof -
  have k: "ksu_attach_recursive_mnt_entry 0x1000 \<lparr>dest_mnt = 7, original_flags = 5, spoofed = False\<rparr>
      \<lparr>PT_REGS_PARM1 = 1, PT_REGS_PARM2 = 2\<rparr>
      \<lparr>mounts = [2 \<mapsto> \<lparr>mnt_flags = 0x1013, mnt_devname = None\<rparr>], ksu_mount_propagation_paused = 1\<rparr>
    = Inr (\<lparr>dest_mnt = 2, original_flags = 0x1013, spoofed = True\<rparr>,
           \<lparr>mounts = [2 \<mapsto> \<lparr>mnt_flags = 0x13, mnt_devname = None\<rparr>], ksu_mount_propagation_paused = 1\<rparr>)"
    by (simp add: ksu_attach_recursive_mnt_entry_def deref_def)
  have z: "ksu_attach_recursive_mnt_entry_part_000 0x1000 \<lparr>dest_mnt = 7, original_flags = 5, spoofed = False\<rparr>
      \<lparr>PT_REGS_PARM1 = 1, PT_REGS_PARM2 = 2\<rparr>
      (zstate_at_load [1 \<mapsto> \<lparr>mnt_flags = 0, mnt_devname = Some ''tmpfs''\<rparr>,
                       2 \<mapsto> \<lparr>mnt_flags = 0x1013, mnt_devname = None\<rparr>])
    = Inr (\<lparr>dest_mnt = 2, original_flags = 0x1013, spoofed = True\<rparr>,
           zstate_at_load [1 \<mapsto> \<lparr>mnt_flags = 0, mnt_devname = Some ''tmpfs''\<rparr>,
                       2 \<mapsto> \<lparr>mnt_flags = 0x13, mnt_devname = None\<rparr>])"
    by (simp add: ksu_attach_recursive_mnt_entry_part_000_def capture_modules_devname_def
        skip_spoof_def deref_def zstate_at_load_def strncmp_is_0_def)
  from spoof_clears_only_shared_bit [of "0x1000" "\<lparr>dest_mnt = 7, original_flags = 5, spoofed = False\<rparr>"
      "\<lparr>PT_REGS_PARM1 = 1, PT_REGS_PARM2 = 2\<rparr>"
      "\<lparr>mounts = [2 \<mapsto> \<lparr>mnt_flags = 0x1013, mnt_devname = None\<rparr>], ksu_mount_propagation_paused = 1\<rparr>"
      "\<lparr>dest_mnt = 2, original_flags = 0x1013, spoofed = True\<rparr>"
      "\<lparr>mounts = [2 \<mapsto> \<lparr>mnt_flags = 0x13, mnt_devname = None\<rparr>], ksu_mount_propagation_paused = 1\<rparr>"
      "\<lparr>dest_mnt = 7, original_flags = 5, spoofed = False\<rparr>"
      "zstate_at_load [1 \<mapsto> \<lparr>mnt_flags = 0, mnt_devname = Some ''tmpfs''\<rparr>,
                       2 \<mapsto> \<lparr>mnt_flags = 0x1013, mnt_devname = None\<rparr>]"
      "\<lparr>dest_mnt = 2, original_flags = 0x1013, spoofed = True\<rparr>"
      "zstate_at_load [1 \<mapsto> \<lparr>mnt_flags = 0, mnt_devname = Some ''tmpfs''\<rparr>,
                       2 \<mapsto> \<lparr>mnt_flags = 0x13, mnt_devname = None\<rparr>]"]
  show ?thesis using k z by simp
qed

subsection \<open>The scope gate of the Zygote variant\<close>










text \<open>
  Claim C9. In \<^verbatim>\<open>src/unnamed/part_000\<close>, after Zygote has started and a modules device
  name has been captured, a call whose source has a null \<^verbatim>\<open>mnt_devname\<close> is not
  skipped by the gate, and with a shared destination the spoof is applied: the flags are
  recorded in the slot and the shared bit of the destination is cleared.
\<close>

theorem null_devname_stays_in_scope:
  assumes "ksu_zygote_started s \<noteq> 0" and "ksu_modules_devname_initialized s \<noteq> 0"
    and "PT_REGS_PARM1 regs \<noteq> NULL" and "PT_REGS_PARM2 regs \<noteq> NULL"
    and "mounts s (PT_REGS_PARM1 regs) = Some src" and "mnt_devname src = None"
    and "mounts s (PT_REGS_PARM2 regs) = Some m" and "mnt_flags m AND MNT_SHARED \<noteq> 0"
  shows "skip_spoof (PT_REGS_PARM1 regs) s = Inr False
       \<and> ksu_attach_recursive_mnt_entry_part_000 MNT_SHARED state regs s =
           Inr (state\<lparr>dest_mnt := PT_REGS_PARM2 regs, original_flags := mnt_flags m, spoofed := True\<rparr>,
                s\<lparr>mounts := (mounts s)(PT_REGS_PARM2 regs \<mapsto> m\<lparr>mnt_flags := mnt_flags m AND NOT MNT_SHARED\<rparr>)\<rparr>)"
  using assms
  by (simp add: ksu_attach_recursive_mnt_entry_part_000_def capture_modules_devname_def
      skip_spoof_def deref_def Let_def)

theorem null_devname_stays_in_scope_witness:
  "ksu_attach_recursive_mnt_entry_part_000 0x1000 \<lparr>dest_mnt = 0, original_flags = 0, spoofed = False\<rparr>
     \<lparr>PT_REGS_PARM1 = 4, PT_REGS_PARM2 = 9\<rparr>
     \<lparr>mounts = [4 \<mapsto> \<lparr>mnt_flags = 0x20, mnt_devname = None\<rparr>,
                9 \<mapsto> \<lparr>mnt_flags = 0x1001, mnt_devname = Some ''tmpfs''\<rparr>],
      ksu_zygote_started = 1, ksu_modules_devname_initialized = 1,
      ksu_modules_devname = ''/dev/block/loop0''\<rparr>
   = Inr (\<lparr>dest_mnt = 9, original_flags = 0x1001, spoofed = True\<rparr>,
     \<lparr>mounts = [4 \<mapsto> \<lparr>mnt_flags = 0x20, mnt_devname = None\<rparr>,
                9 \<mapsto> \<lparr>mnt_flags = 0x1, mnt_devname = Some ''tmpfs''\<rparr>],
      ksu_zygote_started = 1, ksu_modules_devname_initialized = 1,
      ksu_modules_devname = ''/dev/block/loop0''\<rparr>)"
proof -
  let ?src = "\<lparr>mnt_flags = 0x20, mnt_devname = None\<rparr>"
  let ?dst = "\<lparr>mnt_flags = 0x1001, mnt_devname = Some ''tmpfs''\<rparr>"
  let ?z = "\<lparr>mounts = [4 \<mapsto> ?src, 9 \<mapsto> ?dst],
      ksu_zygote_started = 1, ksu_modules_devname_initialized = 1,
      ksu_modules_devname = ''/dev/block/loop0''\<rparr>"
  let ?regs = "\<lparr>PT_REGS_PARM1 = 4, PT_REGS_PARM2 = 9\<rparr>"
  have h1: "ksu_zygote_started ?z \<noteq> 0" and h2: "ksu_modules_devname_initialized ?z \<noteq> 0"
    and h3: "PT_REGS_PARM1 ?regs \<noteq> NULL" and h4: "PT_REGS_PARM2 ?regs \<noteq> NULL"
    and h5: "mounts ?z (PT_REGS_PARM1 ?regs) = Some ?src" and h6: "mnt_devname ?src = None"
    and h7: "mounts ?z (PT_REGS_PARM2 ?regs) = Some ?dst" and h8: "mnt_flags ?dst AND 0x1000 \<noteq> 0"
    by simp_all
  from null_devname_stays_in_scope [OF h1 h2 h3 h4 h5 h6 h7 h8,
      of "\<lparr>dest_mnt = 0, original_flags = 0, spoofed = False\<rparr>"]
  show ?thesis by simp
qed

end
